theory Spec2Isabelle
  imports Main "HOL-Library.Word" "HOL-Library.List_Lexorder" "HOL-Library.Multiset"
begin

section \<open>JavaScript values\<close>

text \<open>
  A JavaScript string is a sequence of UTF-16 code units; \<open>length\<close>, \<open>slice\<close> and the
  regular expressions of the sources (none has the \<open>u\<close> flag) all count code units.
  \<open>js\<close> turns an ASCII literal into such a string.
\<close>

type_synonym jschar = "16 word"
type_synonym jsstring = "jschar list"

definition js :: "string \<Rightarrow> jsstring" where
  "js s = map of_char s"

text \<open>
  Any value can be thrown. The handler of the worker reads the property \<open>message\<close> of
  what it has caught, so the model tells apart: an object with a message (every
  \<open>Error\<close> is one), \<open>null\<close>, \<open>undefined\<close>, and any other value, whose \<open>message\<close>
  reads as undefined.
\<close>

datatype thrown = Error jsstring | NullValue | UndefinedValue | OtherValue

text \<open>
  \<open>(error as Error).message\<close>. The cast does nothing at run time: reading a property of
  \<open>null\<close> or \<open>undefined\<close> throws a TypeError, written here with the message Node
  gives it.
\<close>

definition cannotRead :: "string \<Rightarrow> thrown" where
  "cannotRead what =
     Error (js ''Cannot read properties of '' @ js what @ js '' (reading '' @ [0x27]
              @ js ''message'' @ [0x27] @ js '')'')"

fun messageOf :: "thrown \<Rightarrow> thrown + jsstring option" where
  "messageOf (Error m) = Inr (Some m)"
| "messageOf NullValue = Inl (cannotRead ''null'')"
| "messageOf UndefinedValue = Inl (cannotRead ''undefined'')"
| "messageOf OtherValue = Inr None"

text \<open>\<open>!x\<close> for \<open>x: string | undefined\<close>: absent or empty.\<close>

fun falsy :: "jsstring option \<Rightarrow> bool" where
  "falsy None = True"
| "falsy (Some s) = (s = [])"

text \<open>A \<open>Date\<close> is its time value, milliseconds since the epoch.\<close>

type_synonym jsdate = int


section \<open>Data model of the summary pipeline\<close>

datatype IntervalType = Day | Week | Month

fun intervalTypeName :: "IntervalType \<Rightarrow> jsstring" where
  "intervalTypeName Day = js ''day''"
| "intervalTypeName Week = js ''week''"
| "intervalTypeName Month = js ''month''"

record TimeInterval =
  intervalType :: IntervalType
  intervalStart :: jsdate
  intervalEnd :: jsdate

record AISummaryConfig =
  enabled :: bool

record EnabledIntervals =
  day :: bool
  week :: bool
  month :: bool

text \<open>
  The pipeline context. A logger is identified by the scope its \<open>child\<close> calls have
  built; \<open>None\<close> is the absent logger that \<open>logger?.\<close> skips.
\<close>

record SummarizerPipelineContext =
  logger :: "jsstring list option"
  aiSummaryConfig :: AISummaryConfig
  overwrite :: bool
  outputDir :: "jsstring option"
  enabledIntervals :: EnabledIntervals

text \<open>The worker's input \<open>{ interval, repoId }\<close>.\<close>

record RepoInterval =
  interval :: TimeInterval
  repoId :: jsstring

text \<open>What the worker's promise resolves to: \<open>null\<close>, \<open>undefined\<close>, or the summary.\<close>

datatype jsresult = Null | Undefined | Summary jsstring


section \<open>Effects\<close>

text \<open>
  Every call of an effectful collaborator and every log line is recorded, in order, in
  the state, next to the world (database, file system, AI service) the collaborators
  act on. The world is a type parameter: the worker only hands it to its collaborators.
\<close>

datatype logLevel = LogDebug | LogInfo | LogError

text \<open>
  The second argument of a log call: none, \<open>{ outputPath }\<close>, or \<open>{ error: message }\<close>
  with a message that may be undefined.
\<close>

datatype logData = NoData | OutputPath jsstring | ErrorMessage "jsstring option"

datatype 'm event =
    Log logLevel "jsstring list" jsstring logData
  | CallExistsSync jsstring
  | CallGetRepoMetrics jsstring jsstring jsstring
  | CallGenerateRepoSummary 'm AISummaryConfig jsstring jsstring IntervalType
  | CallStoreRepoSummary jsstring jsstring jsstring IntervalType
  | CallWriteToFile jsstring jsstring

record ('w, 'm) state =
  events :: "'m event list"
  world :: 'w

text \<open>
  The collaborators imported by the worker's module, none of them under src/: they are
  parameters of the model. Each may throw (\<open>Inl\<close>) and may change the world; the path
  helper and \<open>toDateString\<close> are pure, and \<open>existsSync\<close> only reads and never throws.
\<close>

record ('w, 'm) collaborators =
  toDateString :: "jsdate \<Rightarrow> jsstring"
  getRepoFilePath ::
    "jsstring option \<Rightarrow> jsstring \<Rightarrow> jsstring \<Rightarrow> IntervalType \<Rightarrow> jsstring \<Rightarrow> thrown + jsstring"
  existsSync :: "jsstring \<Rightarrow> 'w \<Rightarrow> bool"
  getRepoMetrics :: "jsstring \<Rightarrow> jsstring \<times> jsstring \<Rightarrow> 'w \<Rightarrow> (thrown + 'm) \<times> 'w"
  generateRepoSummary ::
    "'m \<Rightarrow> AISummaryConfig \<Rightarrow> jsstring \<times> jsstring \<Rightarrow> IntervalType \<Rightarrow> 'w
      \<Rightarrow> (thrown + jsstring option) \<times> 'w"
  storeRepoSummary ::
    "jsstring \<Rightarrow> jsstring \<Rightarrow> jsstring \<Rightarrow> IntervalType \<Rightarrow> 'w \<Rightarrow> (thrown + unit) \<times> 'w"
  writeToFile :: "jsstring \<Rightarrow> jsstring \<Rightarrow> 'w \<Rightarrow> (thrown + unit) \<times> 'w"

text \<open>An async computation: it ends in a thrown value or a result, and a new state.\<close>

type_synonym ('s, 'a) step = "'s \<Rightarrow> (thrown + 'a) \<times> 's"

definition ret :: "'a \<Rightarrow> ('s, 'a) step" where
  "ret a s = (Inr a, s)"

definition lift :: "thrown + 'a \<Rightarrow> ('s, 'a) step" where
  "lift r s = (r, s)"

definition andThen :: "('s, 'a) step \<Rightarrow> ('a \<Rightarrow> ('s, 'b) step) \<Rightarrow> ('s, 'b) step" where
  "andThen m f s = (case m s of (Inl e, s') \<Rightarrow> (Inl e, s') | (Inr a, s') \<Rightarrow> f a s')"

definition tryCatch :: "('s, 'a) step \<Rightarrow> (thrown \<Rightarrow> ('s, 'a) step) \<Rightarrow> ('s, 'a) step" where
  "tryCatch body handler s =
     (case body s of (Inl e, s') \<Rightarrow> handler e s' | (Inr a, s') \<Rightarrow> (Inr a, s'))"

definition emit :: "'m event \<Rightarrow> ('w, 'm) state \<Rightarrow> ('w, 'm) state" where
  "emit e s = s\<lparr>events := events s @ [e]\<rparr>"

definition call :: "'m event \<Rightarrow> ('w \<Rightarrow> (thrown + 'a) \<times> 'w) \<Rightarrow> (('w, 'm) state, 'a) step" where
  "call e f s = (case f (world s) of (r, w') \<Rightarrow> (r, \<lparr>events = events s @ [e], world = w'\<rparr>))"

text \<open>\<open>lg?.level(msg, data)\<close>: nothing happens without a logger.\<close>

definition logTo ::
  "jsstring list option \<Rightarrow> logLevel \<Rightarrow> jsstring \<Rightarrow> logData \<Rightarrow> (('w, 'm) state, unit) step"
where
  "logTo lg lvl msg data s =
     (case lg of None \<Rightarrow> (Inr (), s) | Some scope \<Rightarrow> (Inr (), emit (Log lvl scope msg data) s))"

definition child :: "jsstring list option \<Rightarrow> jsstring \<Rightarrow> jsstring list option" where
  "child lg name = (case lg of None \<Rightarrow> None | Some scope \<Rightarrow> Some (scope @ [name]))"


section \<open>The per-interval worker\<close>

definition checkExistingSummary ::
  "('w, 'm) collaborators \<Rightarrow> jsstring \<Rightarrow> jsstring \<Rightarrow> IntervalType \<Rightarrow> jsstring option
    \<Rightarrow> (('w, 'm) state, bool) step"
where
  "checkExistingSummary env rid date ity outDir =
     (if falsy outDir then ret False
      else
        andThen (lift (getRepoFilePath env outDir rid (js ''summaries'') ity (date @ js ''.md'')))
          (\<lambda>summaryPath.
             call (CallExistsSync summaryPath) (\<lambda>w. (Inr (existsSync env summaryPath w), w))))"

text \<open>Lines 80 to 127 of the worker: fetch, summarise, store, export.\<close>

definition summariseAndExport ::
  "('w, 'm) collaborators \<Rightarrow> RepoInterval \<Rightarrow> SummarizerPipelineContext \<Rightarrow> jsstring list option
    \<Rightarrow> jsstring \<times> jsstring \<Rightarrow> (('w, 'm) state, jsresult) step"
where
  "summariseAndExport env inp ctx intervalLogger dateRange =
     (let iv = interval inp; rid = repoId inp in
      andThen (call (CallGetRepoMetrics rid (fst dateRange) (snd dateRange))
                 (getRepoMetrics env rid dateRange))
        (\<lambda>metrics.
      andThen (call (CallGenerateRepoSummary metrics (aiSummaryConfig ctx)
                       (fst dateRange) (snd dateRange) (intervalType iv))
                 (generateRepoSummary env metrics (aiSummaryConfig ctx) dateRange (intervalType iv)))
        (\<lambda>summary.
      (let skip = andThen (logTo intervalLogger LogDebug
                            (js ''No activity for repo '' @ rid @ js '' on '' @ fst dateRange
                               @ js '', skipping summary generation'') NoData)
                    (\<lambda>_. ret Undefined)
       in case summary of
            None \<Rightarrow> skip
          | Some text \<Rightarrow>
              if text = [] then skip
              else
         andThen (call (CallStoreRepoSummary rid (toDateString env (intervalStart iv)) text
                          (intervalType iv))
                    (storeRepoSummary env rid (toDateString env (intervalStart iv)) text
                       (intervalType iv)))
           (\<lambda>_.
         andThen (lift (getRepoFilePath env (outputDir ctx) rid (js ''summaries'')
                          (intervalType iv) (toDateString env (intervalStart iv) @ js ''.md'')))
           (\<lambda>outputPath.
         andThen (call (CallWriteToFile outputPath text) (writeToFile env outputPath text))
           (\<lambda>_.
         andThen (logTo intervalLogger LogInfo
                    (js ''Generated and exported '' @ intervalTypeName (intervalType iv)
                       @ js '' summary for repo '' @ rid) (OutputPath outputPath))
           (\<lambda>_. ret (Summary text)))))))))"

text \<open>The body of the \<open>try\<close> block, lines 64 to 127.\<close>

definition tryBody ::
  "('w, 'm) collaborators \<Rightarrow> RepoInterval \<Rightarrow> SummarizerPipelineContext \<Rightarrow> jsstring list option
    \<Rightarrow> jsstring \<times> jsstring \<Rightarrow> (('w, 'm) state, jsresult) step"
where
  "tryBody env inp ctx intervalLogger dateRange =
     (let iv = interval inp; rid = repoId inp in
      if \<not> overwrite ctx then
        andThen (checkExistingSummary env rid (fst dateRange) (intervalType iv) (outputDir ctx))
          (\<lambda>summaryExists.
             if summaryExists then
               andThen (logTo intervalLogger LogDebug
                          (intervalTypeName (intervalType iv) @ js '' summary already exists for ''
                             @ rid @ js '' on '' @ fst dateRange @ js '', skipping generation'') NoData)
                 (\<lambda>_. ret Undefined)
             else summariseAndExport env inp ctx intervalLogger dateRange)
      else summariseAndExport env inp ctx intervalLogger dateRange)"

text \<open>
  The \<open>catch\<close> block, lines 128 to 132. Without a logger \<open>intervalLogger?.error(...)\<close>
  does not evaluate its arguments; with one, the message of the caught value is read
  first, which throws for \<open>null\<close> and \<open>undefined\<close>. Then the block falls off the end of
  the function, so the promise resolves to \<open>undefined\<close>.
\<close>

definition catchBlock ::
  "jsstring list option \<Rightarrow> jsstring \<Rightarrow> thrown \<Rightarrow> (('w, 'm) state, jsresult) step"
where
  "catchBlock intervalLogger rid err =
     (case intervalLogger of
        None \<Rightarrow> ret Undefined
      | Some scope \<Rightarrow>
          andThen (lift (messageOf err))
            (\<lambda>msg.
               andThen (logTo intervalLogger LogError (js ''Error processing repository '' @ rid)
                          (ErrorMessage msg))
                 (\<lambda>_. ret Undefined)))"

text \<open>The function that \<open>createStep("RepoSummary", ...)\<close> wraps.\<close>

definition generateRepoSummaryForInterval ::
  "('w, 'm) collaborators \<Rightarrow> RepoInterval \<Rightarrow> SummarizerPipelineContext
    \<Rightarrow> (('w, 'm) state, jsresult) step"
where
  "generateRepoSummaryForInterval env inp ctx =
     (let iv = interval inp; rid = repoId inp in
      if \<not> enabled (aiSummaryConfig ctx) then
        andThen (logTo (logger ctx) LogDebug
                   (js ''AI summary generation is disabled, skipping ''
                      @ intervalTypeName (intervalType iv) @ js '' summary for '' @ rid) NoData)
          (\<lambda>_. ret Null)
      else
        (let intervalLogger =
               child (child (logger ctx) (intervalTypeName (intervalType iv)))
                 (toDateString env (intervalStart iv));
             dateRange = (toDateString env (intervalStart iv), toDateString env (intervalEnd iv))
         in tryCatch (tryBody env inp ctx intervalLogger dateRange)
              (catchBlock intervalLogger rid)))"


section \<open>The pipelines' stages\<close>

text \<open>The gate of each pipeline (its second stage).\<close>

definition gateMonth :: "'a list \<Rightarrow> SummarizerPipelineContext \<Rightarrow> 'a list" where
  "gateMonth input ctx = (if month (enabledIntervals ctx) then input else [])"

definition gateWeek :: "'a list \<Rightarrow> SummarizerPipelineContext \<Rightarrow> 'a list" where
  "gateWeek input ctx = (if week (enabledIntervals ctx) then input else [])"

definition gateDay :: "'a list \<Rightarrow> SummarizerPipelineContext \<Rightarrow> 'a list" where
  "gateDay input ctx = (if day (enabledIntervals ctx) then input else [])"



section \<open>Notions of the worker's specification\<close>




text \<open>The events that are calls of a collaborator (all but the log lines).\<close>

fun isCall :: "'m event \<Rightarrow> bool" where
  "isCall (Log lvl scope msg data) = False"
| "isCall (CallExistsSync p) = True"
| "isCall (CallGetRepoMetrics rid a b) = True"
| "isCall (CallGenerateRepoSummary m cfg a b ity) = True"
| "isCall (CallStoreRepoSummary rid d content ity) = True"
| "isCall (CallWriteToFile p content) = True"

definition calls :: "('w, 'm) state \<Rightarrow> 'm event list" where
  "calls s = filter isCall (events s)"


section \<open>The feed endpoint\<close>

subsection \<open>Text helpers\<close>

text \<open>\<open>text.replace(/c/g, r)\<close> for a single literal character \<open>c\<close>.\<close>

primrec replaceAll :: "jschar \<Rightarrow> jsstring \<Rightarrow> jsstring \<Rightarrow> jsstring" where
  "replaceAll c r [] = []"
| "replaceAll c r (x # xs) = (if x = c then r else [x]) @ replaceAll c r xs"

definition escapeXml :: "jsstring \<Rightarrow> jsstring" where
  \<open>escapeXml text =
     replaceAll 0x27 (js ''&apos;'')
       (replaceAll 0x22 (js ''&quot;'')
         (replaceAll 0x3E (js ''&gt;'')
           (replaceAll 0x3C (js ''&lt;'')
             (replaceAll 0x26 (js ''&amp;'') text))))\<close>

text \<open>The class \<open>\s\<close>, which is also what \<open>trim\<close> removes, and the line terminators.\<close>

definition isSpace :: "jschar \<Rightarrow> bool" where
  "isSpace c =
     (c \<in> set [0x09, 0x0A, 0x0B, 0x0C, 0x0D, 0x20, 0xA0, 0x1680, 0x2028, 0x2029, 0x202F,
               0x205F, 0x3000, 0xFEFF]
      \<or> (0x2000 \<le> c \<and> c \<le> 0x200A))"

definition isLineTerminator :: "jschar \<Rightarrow> bool" where
  "isLineTerminator c = (c \<in> set [0x0A, 0x0D, 0x2028, 0x2029])"

text \<open>
  \<open>text.replace(re, ...)\<close> with a global regular expression: the matcher is tried at
  each position from the left; where it matches it gives the replacement and the length
  of the match (at least one for every expression here), and the scan goes on behind the
  match; elsewhere the character is copied.
\<close>

fun gsub :: "(jsstring \<Rightarrow> (jsstring \<times> nat) option) \<Rightarrow> jsstring \<Rightarrow> jsstring" where
  "gsub m [] = []"
| "gsub m (c # cs) =
     (case m (c # cs) of
        Some (r, n) \<Rightarrow> r @ gsub m (drop (n - 1) cs)
      | None \<Rightarrow> c # gsub m cs)"

text \<open>
  \<open>opn([^stop]+)cls\<close> at the start of the text: the group and the text behind the match.
  The group is greedy and cannot contain \<open>stop\<close>, with which \<open>cls\<close> begins, so there is
  one way to match at most.
\<close>

definition delimited ::
  "jsstring \<Rightarrow> jschar \<Rightarrow> jsstring \<Rightarrow> jsstring \<Rightarrow> (jsstring \<times> jsstring) option"
where
  "delimited opn stop cls xs =
     (if take (length opn) xs = opn then
        (let body = drop (length opn) xs;
             g = takeWhile (\<lambda>c. c \<noteq> stop) body;
             r = dropWhile (\<lambda>c. c \<noteq> stop) body
         in if g \<noteq> [] \<and> take (length cls) r = cls then Some (g, drop (length cls) r) else None)
      else None)"

text \<open>\<open>/#{1,6}\s/\<close>, replaced by the empty string.\<close>

definition matchHeader :: "jsstring \<Rightarrow> (jsstring \<times> nat) option" where
  "matchHeader xs =
     (let n = length (takeWhile (\<lambda>c. c = 0x23) xs) in
      case drop n xs of
        [] \<Rightarrow> None
      | c # _ \<Rightarrow> if 1 \<le> n \<and> n \<le> 6 \<and> isSpace c then Some ([], n + 1) else None)"

text \<open>\<open>/\*\*([^*]+)\*\*/\<close>, \<open>/\*([^*]+)\*/\<close> and the inline code, each replaced by its group.\<close>

definition matchGroup :: "jsstring \<Rightarrow> jschar \<Rightarrow> jsstring \<Rightarrow> jsstring \<Rightarrow> (jsstring \<times> nat) option" where
  "matchGroup opn stop cls xs =
     (case delimited opn stop cls xs of
        None \<Rightarrow> None
      | Some (g, r) \<Rightarrow> Some (g, length xs - length r))"

definition matchBold :: "jsstring \<Rightarrow> (jsstring \<times> nat) option" where
  "matchBold = matchGroup (js ''**'') 0x2A (js ''**'')"

definition matchItalic :: "jsstring \<Rightarrow> (jsstring \<times> nat) option" where
  "matchItalic = matchGroup (js ''*'') 0x2A (js ''*'')"

definition matchCode :: "jsstring \<Rightarrow> (jsstring \<times> nat) option" where
  "matchCode = matchGroup [0x60] 0x60 [0x60]"

text \<open>\<open>/\[([^\]]+)\]\([^)]+\)/\<close>, replaced by its first group.\<close>

definition matchLink :: "jsstring \<Rightarrow> (jsstring \<times> nat) option" where
  "matchLink xs =
     (case delimited (js ''['') 0x5D (js '']('') xs of
        None \<Rightarrow> None
      | Some (g, r) \<Rightarrow>
          (case delimited [] 0x29 (js '')'') r of
             None \<Rightarrow> None
           | Some (u, r') \<Rightarrow> Some (g, length xs - length r')))"

text \<open>
  \<open>/^[-*+]\s/gm\<close>: \<open>^\<close> holds at the start of the text and behind a line terminator.
  The replacement is the string literal of the source file as its bytes decode, the
  code units U+00E2, U+20AC, U+00A2 and a space.
\<close>

definition bullet :: jsstring where
  "bullet = [0xE2, 0x20AC, 0xA2, 0x20]"

fun stripListItems :: "bool \<Rightarrow> jsstring \<Rightarrow> jsstring" where
  "stripListItems atStart [] = []"
| "stripListItems atStart [c] = [c]"
| "stripListItems atStart (c # d # cs) =
     (if atStart \<and> c \<in> set [0x2D, 0x2A, 0x2B] \<and> isSpace d
      then bullet @ stripListItems (isLineTerminator d) cs
      else c # stripListItems (isLineTerminator c) (d # cs))"

definition trim :: "jsstring \<Rightarrow> jsstring" where
  "trim s = rev (dropWhile isSpace (rev (dropWhile isSpace s)))"

definition stripMarkdown :: "jsstring \<Rightarrow> jsstring" where
  "stripMarkdown text =
     trim
       (stripListItems True
         (gsub matchLink
           (gsub matchCode
             (gsub matchItalic
               (gsub matchBold
                 (gsub matchHeader text))))))"

subsection \<open>Rows and queries\<close>

text \<open>
  A row of \<open>overallSummaries\<close>, with the columns the handler reads. The table, the
  database, is the list of its rows.
\<close>

record OverallSummary =
  date :: jsstring
  intervalType_col :: jsstring
  summary :: "jsstring option"

type_synonym database = "OverallSummary list"

text \<open>
  \<open>db.select().from(overallSummaries).where(eq(intervalType, ity)).orderBy(desc(date)).limit(k)\<close>.
  Dates are text and compare as text: lexicographically, code unit by code unit.
\<close>

definition selectRecent :: "jsstring \<Rightarrow> nat \<Rightarrow> database \<Rightarrow> OverallSummary list" where
  "selectRecent ity k db = take k (rev (sort_key date (filter (\<lambda>r. intervalType_col r = ity) db)))"

subsection \<open>The handler\<close>

text \<open>A template literal prints an undefined value as \<open>undefined\<close>.\<close>

fun tpl :: "jsstring option \<Rightarrow> jsstring" where
  "tpl None = js ''undefined''"
| "tpl (Some s) = s"

definition nl :: jsstring where
  "nl = [0x0A]"

text \<open>The constant \<open>description\<close> of \<open>formatItem\<close>.\<close>

definition descriptionOf :: "OverallSummary \<Rightarrow> jsstring \<Rightarrow> jsstring" where
  "descriptionOf row labelPrefix =
     (case summary row of
        None \<Rightarrow> labelPrefix @ js '' contributor activity summary''
      | Some md \<Rightarrow>
          if md = [] then labelPrefix @ js '' contributor activity summary''
          else take 500 (stripMarkdown md))"

text \<open>The content of the \<open>description\<close> element.\<close>

definition descriptionElement :: "jsstring \<Rightarrow> jsstring" where
  "descriptionElement description =
     escapeXml description @ (if length description \<ge> 500 then js ''...'' else [])"

text \<open>
  \<open>formatItem\<close>. The site URL is the environment variable \<open>SITE_URL\<close>, which may be
  unset; \<open>utc\<close> is \<open>new Date(s).toUTCString()\<close>.
\<close>

definition formatItem ::
  "jsstring option \<Rightarrow> (jsstring \<Rightarrow> jsstring) \<Rightarrow> OverallSummary \<Rightarrow> jsstring \<Rightarrow> jsstring \<Rightarrow> jsstring"
where
  \<open>formatItem siteUrl utc row ity labelPrefix =
     nl @ js ''    <item>'' @ nl
     @ js ''      <title>'' @ labelPrefix @ js '': '' @ date row @ js ''</title>'' @ nl
     @ js ''      <link>'' @ tpl siteUrl @ js ''/summary/'' @ ity @ js ''/'' @ date row
     @ js ''</link>'' @ nl
     @ js ''      <guid isPermaLink="true">'' @ tpl siteUrl @ js ''/summary/'' @ ity @ js ''/''
     @ date row @ js ''</guid>'' @ nl
     @ js ''      <pubDate>'' @ utc (date row) @ js ''</pubDate>'' @ nl
     @ js ''      <description>'' @ descriptionElement (descriptionOf row labelPrefix)
     @ js ''</description>'' @ nl
     @ js ''    </item>''\<close>

text \<open>The array \<open>items\<close> before it is joined.\<close>

definition feedItems ::
  "jsstring option \<Rightarrow> (jsstring \<Rightarrow> jsstring) \<Rightarrow> database \<Rightarrow> jsstring list"
where
  "feedItems siteUrl utc db =
     map (\<lambda>s. formatItem siteUrl utc s (js ''month'') (js ''Monthly Summary''))
       (selectRecent (js ''month'') 1 db)
     @ map (\<lambda>s. formatItem siteUrl utc s (js ''week'') (js ''Weekly Summary''))
         (selectRecent (js ''week'') 4 db)
     @ map (\<lambda>s. formatItem siteUrl utc s (js ''day'') (js ''Daily Summary''))
         (selectRecent (js ''day'') 30 db)"

text \<open>The envelope around the joined items; \<open>now\<close> is \<open>new Date().toUTCString()\<close>.\<close>

definition rssDocument :: "jsstring option \<Rightarrow> jsstring \<Rightarrow> jsstring \<Rightarrow> jsstring" where
  \<open>rssDocument siteUrl now items =
     js ''<?xml version="1.0" encoding="UTF-8"?>'' @ nl
     @ js ''<rss version="2.0" xmlns:atom="http://www.w3.org/2005/Atom">'' @ nl
     @ js ''  <channel>'' @ nl
     @ js ''    <title>'' @ escapeXml (js ''Contributor Analytics'') @ js ''</title>'' @ nl
     @ js ''    <link>'' @ tpl siteUrl @ js ''</link>'' @ nl
     @ js ''    <description>Daily contributor activity summaries and analytics</description>''
     @ nl
     @ js ''    <language>en-us</language>'' @ nl
     @ js ''    <lastBuildDate>'' @ now @ js ''</lastBuildDate>'' @ nl
     @ js ''    <atom:link href="'' @ tpl siteUrl
     @ js ''/rss.xml" rel="self" type="application/rss+xml"/>'' @ nl
     @ js ''    '' @ items @ nl
     @ js ''  </channel>'' @ nl
     @ js ''</rss>''\<close>

record Response =
  body :: jsstring
  headers :: "(jsstring \<times> jsstring) list"

definition GET ::
  "jsstring option \<Rightarrow> (jsstring \<Rightarrow> jsstring) \<Rightarrow> jsstring \<Rightarrow> database \<Rightarrow> Response"
where
  "GET siteUrl utc now db =
     \<lparr>body = rssDocument siteUrl now (concat (feedItems siteUrl utc db)),
      headers = [(js ''Content-Type'', js ''application/xml''),
                 (js ''Cache-Control'', js ''public, max-age=3600'')]\<rparr>"


subsection \<open>The daily handler\<close>

text \<open>
  \<open>GET\<close> of \<open>src/app/rss.xml/route.ts\<close>: the handler with the daily summaries only,
  the 20 most recent, each formatted in place.
\<close>

definition formatItem_route ::
  "jsstring option \<Rightarrow> (jsstring \<Rightarrow> jsstring) \<Rightarrow> OverallSummary \<Rightarrow> jsstring"
where
  \<open>formatItem_route siteUrl utc row =
     (let description =
            (case summary row of
               None \<Rightarrow> js ''Daily contributor activity summary''
             | Some md \<Rightarrow>
                 if md = [] then js ''Daily contributor activity summary''
                 else take 500 (stripMarkdown md))
      in nl @ js ''    <item>'' @ nl
         @ js ''      <title>Daily Summary: '' @ date row @ js ''</title>'' @ nl
         @ js ''      <link>'' @ tpl siteUrl @ js ''/summary/day/'' @ date row @ js ''</link>'' @ nl
         @ js ''      <guid isPermaLink="true">'' @ tpl siteUrl @ js ''/summary/day/'' @ date row
         @ js ''</guid>'' @ nl
         @ js ''      <pubDate>'' @ utc (date row) @ js ''</pubDate>'' @ nl
         @ js ''      <description>'' @ escapeXml description
         @ (if length description \<ge> 500 then js ''...'' else []) @ js ''</description>'' @ nl
         @ js ''    </item>'')\<close>

definition GET_route ::
  "jsstring option \<Rightarrow> (jsstring \<Rightarrow> jsstring) \<Rightarrow> jsstring \<Rightarrow> database \<Rightarrow> Response"
where
  "GET_route siteUrl utc now db =
     \<lparr>body = rssDocument siteUrl now
               (concat (map (formatItem_route siteUrl utc) (selectRecent (js ''day'') 20 db))),
      headers = [(js ''Content-Type'', js ''application/xml''),
                 (js ''Cache-Control'', js ''public, max-age=3600'')]\<rparr>"

subsection \<open>Notions of the feed's specification\<close>

text \<open>The XML entity of a character, and the rows of one granularity.\<close>

definition entity :: "jschar \<Rightarrow> jsstring" where
  "entity c =
     (if c = 0x26 then js ''&amp;''
      else if c = 0x3C then js ''&lt;''
      else if c = 0x3E then js ''&gt;''
      else if c = 0x22 then js ''&quot;''
      else if c = 0x27 then js ''&apos;''
      else [c])"

definition rowsOf :: "jsstring \<Rightarrow> database \<Rightarrow> OverallSummary list" where
  "rowsOf ity db = filter (\<lambda>r. intervalType_col r = ity) db"


section \<open>An example run\<close>

text \<open>
  A small world for running the worker: the files of the output directory and the rows
  of the repository summaries, with collaborators that act on them. The metrics are a
  number, the summariser always answers.
\<close>

record exampleWorld =
  files :: "(jsstring \<times> jsstring) list"
  rows :: "(jsstring \<times> jsstring \<times> IntervalType \<times> jsstring) list"

definition exampleEnv :: "(exampleWorld, nat) collaborators" where
  "exampleEnv =
     \<lparr>toDateString = (\<lambda>d. if d = 0 then js ''2024-01-01'' else js ''2024-01-02''),
      getRepoFilePath = (\<lambda>dir rid cat ity file.
         case dir of
           None \<Rightarrow> Inl (Error (js ''path''))
         | Some d \<Rightarrow> Inr ((if d = [] then [] else d @ js ''/'') @ rid @ js ''/'' @ cat
                          @ js ''/'' @ intervalTypeName ity @ js ''/'' @ file)),
      existsSync = (\<lambda>p w. p \<in> set (map fst (files w))),
      getRepoMetrics = (\<lambda>rid dates w. (Inr (length (rows w)), w)),
      generateRepoSummary = (\<lambda>m cfg dates ity w. (Inr (Some (js ''Great progress'')), w)),
      storeRepoSummary = (\<lambda>rid d content ity w.
         (Inr (), w\<lparr>rows := (rid, d, ity, content) # rows w\<rparr>)),
      writeToFile = (\<lambda>p content w. (Inr (), w\<lparr>files := (p, content) # files w\<rparr>))\<rparr>"



definition exampleNoActivity :: "(exampleWorld, nat) collaborators" where
  "exampleNoActivity =
     exampleEnv\<lparr>generateRepoSummary := (\<lambda>m cfg dates ity w. (Inr None, w))\<rparr>"

definition exampleInput :: RepoInterval where
  "exampleInput =
     \<lparr>interval = \<lparr>intervalType = Day, intervalStart = 0, intervalEnd = 86400000\<rparr>,
      repoId = js ''r1''\<rparr>"

definition exampleContext :: SummarizerPipelineContext where
  "exampleContext =
     \<lparr>logger = Some [],
      aiSummaryConfig = \<lparr>enabled = True\<rparr>,
      overwrite = False,
      outputDir = Some (js ''out''),
      enabledIntervals = \<lparr>day = True, week = False, month = True\<rparr>\<rparr>"

text \<open>The empty world, and the world after the example interval has been exported.\<close>

definition exampleState :: "(exampleWorld, nat) state" where
  "exampleState = \<lparr>events = [], world = \<lparr>files = [], rows = []\<rparr>\<rparr>"

definition exampleExported :: "(exampleWorld, nat) state" where
  "exampleExported =
     \<lparr>events = [],
      world = \<lparr>files = [(js ''out/r1/summaries/day/2024-01-01.md'', js ''Great progress'')],
               rows = [(js ''r1'', js ''2024-01-01'', Day, js ''Great progress'')]\<rparr>\<rparr>"


text \<open>The world after an export with the empty string as output directory.\<close>

definition exampleExportedHere :: "(exampleWorld, nat) state" where
  "exampleExportedHere =
     \<lparr>events = [],
      world = \<lparr>files = [(js ''r1/summaries/day/2024-01-01.md'', js ''Great progress'')],
               rows = [(js ''r1'', js ''2024-01-01'', Day, js ''Great progress'')]\<rparr>\<rparr>"

text \<open>Rows for the feed: a few of each granularity, in no order.\<close>

definition exampleRow :: "string \<Rightarrow> string \<Rightarrow> OverallSummary" where
  "exampleRow d ity = \<lparr>date = js d, intervalType_col = js ity, summary = None\<rparr>"

definition exampleFeed :: database where
  "exampleFeed =
     [exampleRow ''2024-02-10'' ''day'',
      exampleRow ''2024-01-01'' ''month'',
      exampleRow ''2024-02-05'' ''week'',
      exampleRow ''2024-02-11'' ''day'',
      exampleRow ''2024-02-01'' ''month'']"


text \<open>Thirty-five daily rows, of the days from 2024-01-01 to 2024-02-04.\<close>

definition exampleDay :: "nat \<Rightarrow> OverallSummary" where
  "exampleDay i =
     \<lparr>date = (if i < 31 then js ''2024-01-'' else js ''2024-02-'')
              @ [0x30 + of_nat ((if i < 31 then i + 1 else i - 30) div 10),
                 0x30 + of_nat ((if i < 31 then i + 1 else i - 30) mod 10)],
      intervalType_col = js ''day'',
      summary = None\<rparr>"

definition exampleDaily :: database where
  "exampleDaily = map exampleDay [0..<35]"


section \<open>Properties of the worker\<close>

lemmas step_defs = ret_def lift_def andThen_def tryCatch_def call_def logTo_def emit_def calls_def

text \<open>
  C1. When AI summarisation is enabled, the overwrite flag is false, the output
  directory is configured and not the empty string, and the export file of (repoId,
  date, intervalType) exists, the worker resolves to undefined; it fetches no metrics
  and calls neither the summariser nor the persistence: the existence check is its only
  call, and the world is as before.
\<close>

theorem C1_skips_existing_export:
  assumes "enabled (aiSummaryConfig ctx)"
      and "\<not> overwrite ctx"
      and "outputDir ctx = Some dir" and "dir \<noteq> []"
      and "getRepoFilePath env (Some dir) (repoId inp) (js ''summaries'')
             (intervalType (interval inp))
             (toDateString env (intervalStart (interval inp)) @ js ''.md'') = Inr path"
      and "existsSync env path (world s)"
  shows "fst (generateRepoSummaryForInterval env inp ctx s) = Inr Undefined
       \<and> world (snd (generateRepoSummaryForInterval env inp ctx s)) = world s
       \<and> calls (snd (generateRepoSummaryForInterval env inp ctx s))
           = calls s @ [CallExistsSync path]"
  using assms
  by (cases "logger ctx")
     (simp_all add: generateRepoSummaryForInterval_def tryBody_def checkExistingSummary_def
        child_def step_defs Let_def)

theorem C1_skips_existing_export_witness:
  "enabled (aiSummaryConfig exampleContext) \<and> \<not> overwrite exampleContext
   \<and> outputDir exampleContext = Some (js ''out'') \<and> js ''out'' \<noteq> []
   \<and> getRepoFilePath exampleEnv (Some (js ''out'')) (repoId exampleInput) (js ''summaries'')
        (intervalType (interval exampleInput))
        (toDateString exampleEnv (intervalStart (interval exampleInput)) @ js ''.md'')
      = Inr (js ''out/r1/summaries/day/2024-01-01.md'')
   \<and> existsSync exampleEnv (js ''out/r1/summaries/day/2024-01-01.md'') (world exampleExported)
   \<and> fst (generateRepoSummaryForInterval exampleEnv exampleInput exampleContext exampleExported)
       = Inr Undefined
   \<and> world (snd (generateRepoSummaryForInterval exampleEnv exampleInput exampleContext
                   exampleExported)) = world exampleExported
   \<and> calls (snd (generateRepoSummaryForInterval exampleEnv exampleInput exampleContext
                   exampleExported))
       = calls exampleExported @ [CallExistsSync (js ''out/r1/summaries/day/2024-01-01.md'')]"
proof -
  have h1: "enabled (aiSummaryConfig exampleContext)" and h2: "\<not> overwrite exampleContext"
    and h3: "outputDir exampleContext = Some (js ''out'')" and h4: "js ''out'' \<noteq> []"
    by (simp_all add: exampleContext_def js_def)
  have h5: "getRepoFilePath exampleEnv (Some (js ''out'')) (repoId exampleInput) (js ''summaries'')
        (intervalType (interval exampleInput))
        (toDateString exampleEnv (intervalStart (interval exampleInput)) @ js ''.md'')
      = Inr (js ''out/r1/summaries/day/2024-01-01.md'')"
    by (simp add: exampleEnv_def exampleInput_def js_def)
  have h6: "existsSync exampleEnv (js ''out/r1/summaries/day/2024-01-01.md'') (world exampleExported)"
    by (simp add: exampleEnv_def exampleExported_def)
  show ?thesis
    using C1_skips_existing_export [OF h1 h2 h3 h4 h5 h6] h1 h2 h3 h4 h5 h6 by simp
qed


text \<open>
  Without the two conditions the statement fails. With the empty string as output
  directory the check is skipped by \<open>!outputDir\<close>, although the export goes to the path
  built from it: the file is there, and the worker fetches, summarises, stores and writes
  again. With AI summarisation disabled the worker resolves to null.
\<close>

theorem C1_counterexample:
  "\<not> overwrite (exampleContext\<lparr>outputDir := Some []\<rparr>)
   \<and> getRepoFilePath exampleEnv (outputDir (exampleContext\<lparr>outputDir := Some []\<rparr>))
        (js ''r1'') (js ''summaries'') Day (js ''2024-01-01.md'')
      = Inr (js ''r1/summaries/day/2024-01-01.md'')
   \<and> existsSync exampleEnv (js ''r1/summaries/day/2024-01-01.md'') (world exampleExportedHere)
   \<and> fst (generateRepoSummaryForInterval exampleEnv exampleInput
             (exampleContext\<lparr>outputDir := Some []\<rparr>) exampleExportedHere)
      = Inr (Summary (js ''Great progress''))
   \<and> calls (snd (generateRepoSummaryForInterval exampleEnv exampleInput
                   (exampleContext\<lparr>outputDir := Some []\<rparr>) exampleExportedHere))
      = [CallGetRepoMetrics (js ''r1'') (js ''2024-01-01'') (js ''2024-01-02''),
         CallGenerateRepoSummary 1 \<lparr>enabled = True\<rparr> (js ''2024-01-01'') (js ''2024-01-02'') Day,
         CallStoreRepoSummary (js ''r1'') (js ''2024-01-01'') (js ''Great progress'') Day,
         CallWriteToFile (js ''r1/summaries/day/2024-01-01.md'') (js ''Great progress'')]
   \<and> \<not> overwrite (exampleContext\<lparr>aiSummaryConfig := \<lparr>enabled = False\<rparr>\<rparr>)
   \<and> existsSync exampleEnv (js ''out/r1/summaries/day/2024-01-01.md'') (world exampleExported)
   \<and> fst (generateRepoSummaryForInterval exampleEnv exampleInput
             (exampleContext\<lparr>aiSummaryConfig := \<lparr>enabled = False\<rparr>\<rparr>) exampleExported)
      = Inr Null"
  by (simp add: generateRepoSummaryForInterval_def tryBody_def checkExistingSummary_def
        summariseAndExport_def child_def step_defs Let_def exampleContext_def exampleEnv_def
        exampleInput_def exampleExportedHere_def exampleExported_def js_def)

text \<open>
  C2. When AI summarisation is disabled the worker resolves to null, and nothing but
  the debug line happens: the world is unchanged and no collaborator is called, so
  there is no metrics fetch, no persistence and no file write.
\<close>

theorem C2_disabled_returns_null:
  assumes "\<not> enabled (aiSummaryConfig ctx)"
  shows "fst (generateRepoSummaryForInterval env inp ctx s) = Inr Null
       \<and> world (snd (generateRepoSummaryForInterval env inp ctx s)) = world s
       \<and> calls (snd (generateRepoSummaryForInterval env inp ctx s)) = calls s"
  using assms
  by (cases "logger ctx") (simp_all add: generateRepoSummaryForInterval_def step_defs)

theorem C2_disabled_returns_null_witness:
  "\<not> enabled (aiSummaryConfig (exampleContext\<lparr>aiSummaryConfig := \<lparr>enabled = False\<rparr>\<rparr>))
   \<and> fst (generateRepoSummaryForInterval exampleEnv exampleInput
             (exampleContext\<lparr>aiSummaryConfig := \<lparr>enabled = False\<rparr>\<rparr>) exampleState) = Inr Null
   \<and> world (snd (generateRepoSummaryForInterval exampleEnv exampleInput
             (exampleContext\<lparr>aiSummaryConfig := \<lparr>enabled = False\<rparr>\<rparr>) exampleState))
       = world exampleState
   \<and> calls (snd (generateRepoSummaryForInterval exampleEnv exampleInput
             (exampleContext\<lparr>aiSummaryConfig := \<lparr>enabled = False\<rparr>\<rparr>) exampleState))
       = calls exampleState"
  using C2_disabled_returns_null [of "exampleContext\<lparr>aiSummaryConfig := \<lparr>enabled = False\<rparr>\<rparr>"
                                     exampleEnv exampleInput exampleState]
  by (simp add: exampleContext_def)

subsection \<open>Failing steps\<close>
































text \<open>Without an output directory the worker goes straight to the metrics fetch.\<close>

lemma checkExistingSummary_unset:
  "falsy outDir \<Longrightarrow> checkExistingSummary env rid d ity outDir s = (Inr False, s)"
  by (simp add: checkExistingSummary_def ret_def)

lemma worker_unset_fetches:
  assumes "enabled (aiSummaryConfig ctx)" and "outputDir ctx = None"
  shows "\<exists>rest. events (snd (generateRepoSummaryForInterval env inp ctx s))
              = events s @ CallGetRepoMetrics (repoId inp)
                             (toDateString env (intervalStart (interval inp)))
                             (toDateString env (intervalEnd (interval inp))) # rest"
  using assms
  by (cases "logger ctx")
     (auto simp add: generateRepoSummaryForInterval_def tryBody_def checkExistingSummary_def
        summariseAndExport_def catchBlock_def child_def step_defs Let_def
        split: prod.splits sum.splits option.splits)

lemma worker_unset_stores:
  assumes "enabled (aiSummaryConfig ctx)" and "outputDir ctx = None"
      and "getRepoMetrics env (repoId inp)
                (toDateString env (intervalStart (interval inp)),
                 toDateString env (intervalEnd (interval inp))) (world s) = (Inr m, w1)"
      and "generateRepoSummary env m (aiSummaryConfig ctx)
                (toDateString env (intervalStart (interval inp)),
                 toDateString env (intervalEnd (interval inp)))
                (intervalType (interval inp)) w1 = (Inr (Some content), w2)"
      and "content \<noteq> []"
  shows "\<exists>rest. events (snd (generateRepoSummaryForInterval env inp ctx s))
              = events s @ [CallGetRepoMetrics (repoId inp)
                              (toDateString env (intervalStart (interval inp)))
                              (toDateString env (intervalEnd (interval inp))),
                            CallGenerateRepoSummary m (aiSummaryConfig ctx)
                              (toDateString env (intervalStart (interval inp)))
                              (toDateString env (intervalEnd (interval inp)))
                              (intervalType (interval inp)),
                            CallStoreRepoSummary (repoId inp)
                              (toDateString env (intervalStart (interval inp))) content
                              (intervalType (interval inp))] @ rest"
  using assms
  by (cases "logger ctx")
     (auto simp add: generateRepoSummaryForInterval_def tryBody_def checkExistingSummary_def
        summariseAndExport_def catchBlock_def child_def step_defs Let_def
        split: prod.splits sum.splits option.splits)

text \<open>
  C4. With the output directory unset the existence check answers false and calls
  nothing, so the worker (AI summarisation enabled) never skips: in every state, also
  the one an earlier run has left, its first action is the metrics fetch, and a second
  run fetches again; when the fetch succeeds and the summariser returns a summary that
  is not empty, the summary is stored again under (repoId, date, intervalType). No
  other look at the database comes before.
\<close>

theorem C4_unset_output_dir_regenerates:
  assumes "outputDir ctx = None"
  shows "checkExistingSummary env rid d ity (outputDir ctx) s = (Inr False, s)
       \<and> (enabled (aiSummaryConfig ctx) \<longrightarrow>
           (\<exists>rest. events (snd (generateRepoSummaryForInterval env inp ctx s))
              = events s @ CallGetRepoMetrics (repoId inp)
                             (toDateString env (intervalStart (interval inp)))
                             (toDateString env (intervalEnd (interval inp))) # rest))
       \<and> (enabled (aiSummaryConfig ctx) \<longrightarrow>
           (\<exists>rest. events (snd (generateRepoSummaryForInterval env inp ctx
                                  (snd (generateRepoSummaryForInterval env inp ctx s))))
              = events (snd (generateRepoSummaryForInterval env inp ctx s))
                @ CallGetRepoMetrics (repoId inp)
                    (toDateString env (intervalStart (interval inp)))
                    (toDateString env (intervalEnd (interval inp))) # rest))
       \<and> (enabled (aiSummaryConfig ctx)
           \<and> getRepoMetrics env (repoId inp)
                (toDateString env (intervalStart (interval inp)),
                 toDateString env (intervalEnd (interval inp))) (world s) = (Inr m, w1)
           \<and> generateRepoSummary env m (aiSummaryConfig ctx)
                (toDateString env (intervalStart (interval inp)),
                 toDateString env (intervalEnd (interval inp)))
                (intervalType (interval inp)) w1 = (Inr (Some content), w2)
           \<and> content \<noteq> [] \<longrightarrow>
           (\<exists>rest. events (snd (generateRepoSummaryForInterval env inp ctx s))
              = events s @ [CallGetRepoMetrics (repoId inp)
                              (toDateString env (intervalStart (interval inp)))
                              (toDateString env (intervalEnd (interval inp))),
                            CallGenerateRepoSummary m (aiSummaryConfig ctx)
                              (toDateString env (intervalStart (interval inp)))
                              (toDateString env (intervalEnd (interval inp)))
                              (intervalType (interval inp)),
                            CallStoreRepoSummary (repoId inp)
                              (toDateString env (intervalStart (interval inp))) content
                              (intervalType (interval inp))] @ rest))"
proof -
  have "falsy (outputDir ctx)" using assms by simp
  then have "checkExistingSummary env rid d ity (outputDir ctx) s = (Inr False, s)"
    by (rule checkExistingSummary_unset)
  then show ?thesis
    using worker_unset_fetches [OF _ assms, of env inp s]
      worker_unset_fetches [OF _ assms, of env inp
        "snd (generateRepoSummaryForInterval env inp ctx s)"]
      worker_unset_stores [OF _ assms, of env inp s m w1 content w2]
    by blast
qed

theorem C4_unset_output_dir_regenerates_witness:
  "outputDir (exampleContext\<lparr>outputDir := None\<rparr>) = None
   \<and> enabled (aiSummaryConfig (exampleContext\<lparr>outputDir := None\<rparr>))
   \<and> getRepoMetrics exampleEnv (js ''r1'') (js ''2024-01-01'', js ''2024-01-02'')
        (world exampleExported) = (Inr 1, world exampleExported)
   \<and> generateRepoSummary exampleEnv 1 \<lparr>enabled = True\<rparr> (js ''2024-01-01'', js ''2024-01-02'')
        Day (world exampleExported) = (Inr (Some (js ''Great progress'')), world exampleExported)
   \<and> js ''Great progress'' \<noteq> []
   \<and> checkExistingSummary exampleEnv (js ''r1'') (js ''2024-01-01'') Day
        (outputDir (exampleContext\<lparr>outputDir := None\<rparr>)) exampleExported
      = (Inr False, exampleExported)
   \<and> (\<exists>rest. events (snd (generateRepoSummaryForInterval exampleEnv exampleInput
                 (exampleContext\<lparr>outputDir := None\<rparr>) exampleExported))
        = events exampleExported
          @ [CallGetRepoMetrics (js ''r1'') (js ''2024-01-01'') (js ''2024-01-02''),
             CallGenerateRepoSummary 1 \<lparr>enabled = True\<rparr> (js ''2024-01-01'') (js ''2024-01-02'')
               Day,
             CallStoreRepoSummary (js ''r1'') (js ''2024-01-01'') (js ''Great progress'') Day]
          @ rest)
   \<and> (\<exists>rest. events (snd (generateRepoSummaryForInterval exampleEnv exampleInput
                 (exampleContext\<lparr>outputDir := None\<rparr>)
                 (snd (generateRepoSummaryForInterval exampleEnv exampleInput
                         (exampleContext\<lparr>outputDir := None\<rparr>) exampleExported))))
        = events (snd (generateRepoSummaryForInterval exampleEnv exampleInput
                         (exampleContext\<lparr>outputDir := None\<rparr>) exampleExported))
          @ CallGetRepoMetrics (js ''r1'') (js ''2024-01-01'') (js ''2024-01-02'') # rest)"
proof -
  let ?ctx = "exampleContext\<lparr>outputDir := None\<rparr>"
  have sel: "repoId exampleInput = js ''r1''" "intervalType (interval exampleInput) = Day"
    "toDateString exampleEnv (intervalStart (interval exampleInput)) = js ''2024-01-01''"
    "toDateString exampleEnv (intervalEnd (interval exampleInput)) = js ''2024-01-02''"
    "aiSummaryConfig ?ctx = \<lparr>enabled = True\<rparr>"
    by (simp_all add: exampleInput_def exampleEnv_def exampleContext_def)
  have od: "outputDir ?ctx = None" and en: "enabled (aiSummaryConfig ?ctx)"
    by (simp_all add: exampleContext_def)
  have met: "getRepoMetrics exampleEnv (js ''r1'') (js ''2024-01-01'', js ''2024-01-02'')
        (world exampleExported) = (Inr 1, world exampleExported)"
    by (simp add: exampleEnv_def exampleExported_def)
  have gen: "generateRepoSummary exampleEnv 1 \<lparr>enabled = True\<rparr>
        (js ''2024-01-01'', js ''2024-01-02'') Day (world exampleExported)
      = (Inr (Some (js ''Great progress'')), world exampleExported)"
    by (simp add: exampleEnv_def)
  have ne: "js ''Great progress'' \<noteq> []"
    by (simp add: js_def)
  show ?thesis
    using C4_unset_output_dir_regenerates [OF od, of exampleEnv "js ''r1''" "js ''2024-01-01''"
        Day exampleExported exampleInput 1 "world exampleExported" "js ''Great progress''"
        "world exampleExported"] od en met gen ne
    unfolding sel by simp
qed

text \<open>
  C5. When the worker reaches the summariser (AI summarisation enabled, no skip for an
  existing export, metrics fetched) and the summariser returns null or the empty string,
  the worker resolves to undefined and its calls end with the summariser's: nothing is
  stored and no file is written.
\<close>

theorem C5_empty_summary_not_persisted:
  assumes "enabled (aiSummaryConfig ctx)"
      and "if overwrite ctx then s0 = s
           else checkExistingSummary env (repoId inp)
                  (toDateString env (intervalStart (interval inp)))
                  (intervalType (interval inp)) (outputDir ctx) s = (Inr False, s0)"
      and "getRepoMetrics env (repoId inp)
             (toDateString env (intervalStart (interval inp)),
              toDateString env (intervalEnd (interval inp))) (world s0) = (Inr m, w1)"
      and "generateRepoSummary env m (aiSummaryConfig ctx)
             (toDateString env (intervalStart (interval inp)),
              toDateString env (intervalEnd (interval inp)))
             (intervalType (interval inp)) w1 = (Inr summ, w2)"
      and "summ = None \<or> summ = Some []"
  shows "fst (generateRepoSummaryForInterval env inp ctx s) = Inr Undefined
       \<and> world (snd (generateRepoSummaryForInterval env inp ctx s)) = w2
       \<and> calls (snd (generateRepoSummaryForInterval env inp ctx s))
           = calls s0 @ [CallGetRepoMetrics (repoId inp)
                           (toDateString env (intervalStart (interval inp)))
                           (toDateString env (intervalEnd (interval inp))),
                         CallGenerateRepoSummary m (aiSummaryConfig ctx)
                           (toDateString env (intervalStart (interval inp)))
                           (toDateString env (intervalEnd (interval inp)))
                           (intervalType (interval inp))]"
  using assms
  by (cases "logger ctx"; cases "overwrite ctx")
     (auto simp add: generateRepoSummaryForInterval_def tryBody_def summariseAndExport_def
        child_def step_defs Let_def)

theorem C5_empty_summary_not_persisted_witness:
  "enabled (aiSummaryConfig exampleContext)
   \<and> \<not> overwrite exampleContext
   \<and> checkExistingSummary exampleNoActivity (js ''r1'') (js ''2024-01-01'') Day
        (outputDir exampleContext) exampleState
      = (Inr False,
         \<lparr>events = [CallExistsSync (js ''out/r1/summaries/day/2024-01-01.md'')],
          world = \<lparr>files = [], rows = []\<rparr>\<rparr>)
   \<and> getRepoMetrics exampleNoActivity (js ''r1'') (js ''2024-01-01'', js ''2024-01-02'')
        \<lparr>files = [], rows = []\<rparr> = (Inr 0, \<lparr>files = [], rows = []\<rparr>)
   \<and> generateRepoSummary exampleNoActivity 0 (aiSummaryConfig exampleContext)
        (js ''2024-01-01'', js ''2024-01-02'') Day \<lparr>files = [], rows = []\<rparr>
      = (Inr None, \<lparr>files = [], rows = []\<rparr>)
   \<and> fst (generateRepoSummaryForInterval exampleNoActivity exampleInput exampleContext
             exampleState) = Inr Undefined
   \<and> world (snd (generateRepoSummaryForInterval exampleNoActivity exampleInput exampleContext
                   exampleState)) = \<lparr>files = [], rows = []\<rparr>
   \<and> calls (snd (generateRepoSummaryForInterval exampleNoActivity exampleInput exampleContext
                   exampleState))
      = [CallExistsSync (js ''out/r1/summaries/day/2024-01-01.md''),
         CallGetRepoMetrics (js ''r1'') (js ''2024-01-01'') (js ''2024-01-02''),
         CallGenerateRepoSummary 0 \<lparr>enabled = True\<rparr> (js ''2024-01-01'') (js ''2024-01-02'') Day]"
proof -
  let ?s0 = "\<lparr>events = [CallExistsSync (js ''out/r1/summaries/day/2024-01-01.md'')],
              world = \<lparr>files = [], rows = []\<rparr>\<rparr> :: (exampleWorld, nat) state"
  let ?w = "\<lparr>files = [], rows = []\<rparr>"
  have sel: "repoId exampleInput = js ''r1''" "intervalType (interval exampleInput) = Day"
    "toDateString exampleNoActivity (intervalStart (interval exampleInput)) = js ''2024-01-01''"
    "toDateString exampleNoActivity (intervalEnd (interval exampleInput)) = js ''2024-01-02''"
    by (simp_all add: exampleInput_def exampleNoActivity_def exampleEnv_def)
  have en: "enabled (aiSummaryConfig exampleContext)"
    and ow: "\<not> overwrite exampleContext"
    by (simp_all add: exampleContext_def)
  have chk: "checkExistingSummary exampleNoActivity (js ''r1'') (js ''2024-01-01'') Day
        (outputDir exampleContext) exampleState = (Inr False, ?s0)"
    by (simp add: checkExistingSummary_def exampleContext_def exampleNoActivity_def
          exampleEnv_def exampleState_def step_defs js_def)
  have met: "getRepoMetrics exampleNoActivity (js ''r1'') (js ''2024-01-01'', js ''2024-01-02'')
        (world ?s0) = (Inr 0, ?w)"
    by (simp add: exampleNoActivity_def exampleEnv_def)
  have gen: "generateRepoSummary exampleNoActivity 0 (aiSummaryConfig exampleContext)
        (js ''2024-01-01'', js ''2024-01-02'') Day ?w = (Inr None, ?w)"
    by (simp add: exampleNoActivity_def exampleEnv_def)
  have "fst (generateRepoSummaryForInterval exampleNoActivity exampleInput exampleContext
             exampleState) = Inr Undefined
   \<and> world (snd (generateRepoSummaryForInterval exampleNoActivity exampleInput exampleContext
                   exampleState)) = ?w
   \<and> calls (snd (generateRepoSummaryForInterval exampleNoActivity exampleInput exampleContext
                   exampleState))
      = calls ?s0 @
        [CallGetRepoMetrics (js ''r1'') (js ''2024-01-01'') (js ''2024-01-02''),
         CallGenerateRepoSummary 0 (aiSummaryConfig exampleContext) (js ''2024-01-01'')
           (js ''2024-01-02'') Day]"
    using C5_empty_summary_not_persisted [of exampleContext ?s0 exampleState exampleNoActivity exampleInput
        0 ?w None ?w] en ow chk met gen
    unfolding sel by simp
  then show ?thesis
    using en ow chk met gen by (simp add: calls_def exampleContext_def)
qed

text \<open>
  C6. Each gate returns its input sequence unchanged when the flag of its granularity is
  set and the empty sequence when it is not, whatever the input.
\<close>

theorem C6_granularity_gate:
  "(month (enabledIntervals ctx) \<longrightarrow> gateMonth input ctx = input)
   \<and> (\<not> month (enabledIntervals ctx) \<longrightarrow> gateMonth input ctx = [])
   \<and> (week (enabledIntervals ctx) \<longrightarrow> gateWeek input ctx = input)
   \<and> (\<not> week (enabledIntervals ctx) \<longrightarrow> gateWeek input ctx = [])
   \<and> (day (enabledIntervals ctx) \<longrightarrow> gateDay input ctx = input)
   \<and> (\<not> day (enabledIntervals ctx) \<longrightarrow> gateDay input ctx = [])"
  by (simp add: gateMonth_def gateWeek_def gateDay_def)


theorem C6_granularity_gate_witness:
  "day (enabledIntervals exampleContext) \<and> \<not> week (enabledIntervals exampleContext)
   \<and> month (enabledIntervals exampleContext)
   \<and> gateDay [exampleInput] exampleContext = [exampleInput]
   \<and> gateWeek [exampleInput, exampleInput] exampleContext = []
   \<and> gateMonth [exampleInput] exampleContext = [exampleInput]"
  using C6_granularity_gate [of exampleContext "[exampleInput]"]
    C6_granularity_gate [of exampleContext "[exampleInput, exampleInput]"]
  by (simp add: exampleContext_def)


section \<open>Properties of the feed\<close>

subsection \<open>Escaping\<close>

text \<open>
  The five passes of \<open>escapeXml\<close> amount to one pass that puts the entity of each
  character: the ampersands are replaced first, so those of the entities stay.
\<close>

lemma replaceAll_append:
  "replaceAll c r (xs @ ys) = replaceAll c r xs @ replaceAll c r ys"
  by (induction xs) simp_all

lemma replaceAll_concat_map:
  "replaceAll c r xs = concat (map (\<lambda>x. if x = c then r else [x]) xs)"
  by (induction xs) simp_all

lemma escapeXml_Nil: "escapeXml [] = []"
  by (simp add: escapeXml_def)

lemma escapeXml_single: "escapeXml [c] = entity c"
  by (simp add: escapeXml_def entity_def js_def)

lemma escapeXml_append: "escapeXml (xs @ ys) = escapeXml xs @ escapeXml ys"
  by (simp add: escapeXml_def replaceAll_append)

lemma escapeXml_Cons: "escapeXml (c # cs) = entity c @ escapeXml cs"
  using escapeXml_append [of "[c]" cs] by (simp add: escapeXml_single)

lemma escapeXml_entities: "escapeXml s = concat (map entity s)"
  by (induction s) (simp_all add: escapeXml_Nil escapeXml_Cons)

lemma entity_no_markup: "x \<in> set (entity c) \<Longrightarrow> x \<notin> {0x3C, 0x3E, 0x22, 0x27}"
  by (auto simp add: entity_def js_def split: if_splits)

lemma escapeXml_no_markup: "x \<in> set (escapeXml s) \<Longrightarrow> x \<notin> {0x3C, 0x3E, 0x22, 0x27}"
  unfolding escapeXml_entities using entity_no_markup by auto

lemma escapeXml_plain:
  "\<forall>c\<in>set s. c \<notin> {0x26, 0x3C, 0x3E, 0x22, 0x27} \<Longrightarrow> escapeXml s = s"
  by (induction s) (simp_all add: escapeXml_Nil escapeXml_Cons entity_def)


subsection \<open>Text without markdown\<close>

lemma gsub_no_match:
  "(\<And>c cs. c \<in> set xs \<Longrightarrow> m (c # cs) = None) \<Longrightarrow> gsub m xs = xs"
  by (induction xs) simp_all

lemma matchHeader_other: "c \<noteq> 0x23 \<Longrightarrow> matchHeader (c # cs) = None"
  by (simp add: matchHeader_def)

lemma matchGroup_other: "opn \<noteq> [] \<Longrightarrow> c \<noteq> hd opn \<Longrightarrow> matchGroup opn stop cls (c # cs) = None"
  by (cases opn) (auto simp add: matchGroup_def delimited_def)

lemma matchBold_other: "c \<noteq> 0x2A \<Longrightarrow> matchBold (c # cs) = None"
  by (simp add: matchBold_def matchGroup_other js_def)

lemma matchItalic_other: "c \<noteq> 0x2A \<Longrightarrow> matchItalic (c # cs) = None"
  by (simp add: matchItalic_def matchGroup_other js_def)

lemma matchCode_other: "c \<noteq> 0x60 \<Longrightarrow> matchCode (c # cs) = None"
  by (simp add: matchCode_def matchGroup_other)

lemma matchLink_other: "c \<noteq> 0x5B \<Longrightarrow> matchLink (c # cs) = None"
  by (simp add: matchLink_def delimited_def js_def)

lemma stripListItems_no_marker:
  "\<forall>c\<in>set xs. c \<notin> {0x2D, 0x2A, 0x2B} \<Longrightarrow> stripListItems b xs = xs"
  by (induction b xs rule: stripListItems.induct) simp_all

lemma dropWhile_none: "\<forall>c\<in>set xs. \<not> P c \<Longrightarrow> dropWhile P xs = xs"
  by (cases xs) simp_all

lemma trim_no_space: "\<forall>c\<in>set xs. \<not> isSpace c \<Longrightarrow> trim xs = xs"
  by (simp add: trim_def dropWhile_none)

lemma stripMarkdown_plain:
  assumes "\<forall>c\<in>set xs. c \<notin> {0x23, 0x2A, 0x60, 0x5B, 0x2D, 0x2B} \<and> \<not> isSpace c"
  shows "stripMarkdown xs = xs"
proof -
  have h: "gsub matchHeader xs = xs"
    using assms by (intro gsub_no_match matchHeader_other) auto
  have b: "gsub matchBold xs = xs"
    using assms by (intro gsub_no_match matchBold_other) auto
  have i: "gsub matchItalic xs = xs"
    using assms by (intro gsub_no_match matchItalic_other) auto
  have c: "gsub matchCode xs = xs"
    using assms by (intro gsub_no_match matchCode_other) auto
  have l: "gsub matchLink xs = xs"
    using assms by (intro gsub_no_match matchLink_other) auto
  have s: "stripListItems True xs = xs"
    using assms by (intro stripListItems_no_marker) auto
  have t: "trim xs = xs"
    using assms by (intro trim_no_space) auto
  show ?thesis by (simp add: stripMarkdown_def h b i c l s t)
qed

lemma stripMarkdown_letters: "stripMarkdown (replicate n 0x61) = replicate n 0x61"
  by (rule stripMarkdown_plain) (simp add: isSpace_def)

lemma escapeXml_letters: "escapeXml (replicate n 0x61) = replicate n 0x61"
  by (rule escapeXml_plain) simp

lemma descriptionElement_summary:
  assumes "summary row = Some md" and "md \<noteq> []"
  shows "descriptionElement (descriptionOf row labelPrefix)
         = escapeXml (take 500 (stripMarkdown md))
           @ (if length (stripMarkdown md) \<ge> 500 then js ''...'' else [])"
  using assms by (simp add: descriptionElement_def descriptionOf_def min_def)


subsection \<open>The most recent rows\<close>

lemma selectRecent_alt:
  "selectRecent ity k db = take k (rev (sort_key date (rowsOf ity db)))"
  by (simp add: selectRecent_def rowsOf_def)

lemma newest_first_sorted:
  "sorted_wrt (\<lambda>a b. date b \<le> date a) (rev (sort_key date xs))"
proof -
  have "sorted (map date (sort_key date xs))"
    by (rule sorted_sort_key)
  then have "sorted_wrt (\<lambda>a b. date a \<le> date b) (sort_key date xs)"
    by (simp add: sorted_wrt_map)
  then show ?thesis
    by (simp add: sorted_wrt_rev)
qed

lemma selectRecent_sorted:
  "sorted_wrt (\<lambda>a b. date b \<le> date a) (selectRecent ity k db)"
  unfolding selectRecent_alt by (intro sorted_wrt_take newest_first_sorted)

lemma selectRecent_length:
  "length (selectRecent ity k db) = min k (length (rowsOf ity db))"
  by (simp add: selectRecent_alt min.commute)

lemma selectRecent_rest:
  "mset (rowsOf ity db) - mset (selectRecent ity k db)
     = mset (drop k (rev (sort_key date (rowsOf ity db))))"
proof -
  let ?l = "rev (sort_key date (rowsOf ity db))"
  have "mset (rowsOf ity db) = mset (take k ?l @ drop k ?l)"
    by simp
  also have "\<dots> = mset (selectRecent ity k db) + mset (drop k ?l)"
    by (simp only: mset_append selectRecent_alt)
  finally show ?thesis by simp
qed

lemma selectRecent_subset:
  "mset (selectRecent ity k db) \<subseteq># mset (rowsOf ity db)"
proof -
  let ?l = "rev (sort_key date (rowsOf ity db))"
  have "mset (rowsOf ity db) = mset (take k ?l @ drop k ?l)"
    by simp
  also have "\<dots> = mset (selectRecent ity k db) + mset (drop k ?l)"
    by (simp only: mset_append selectRecent_alt)
  finally show ?thesis by simp
qed

lemma selectRecent_newest:
  assumes "r \<in># mset (rowsOf ity db) - mset (selectRecent ity k db)"
      and "r' \<in> set (selectRecent ity k db)"
  shows "date r \<le> date r'"
proof -
  let ?l = "rev (sort_key date (rowsOf ity db))"
  have "sorted_wrt (\<lambda>a b. date b \<le> date a) (take k ?l @ drop k ?l)"
    using newest_first_sorted [of "rowsOf ity db"] by simp
  then have "\<forall>a\<in>set (take k ?l). \<forall>b\<in>set (drop k ?l). date b \<le> date a"
    unfolding sorted_wrt_append by blast
  moreover have "r \<in> set (drop k ?l)"
    using assms(1) unfolding selectRecent_rest by simp
  moreover have "r' \<in> set (take k ?l)"
    using assms(2) unfolding selectRecent_alt .
  ultimately show ?thesis by blast
qed

lemma selectRecent_most_recent:
  "length (selectRecent ity k db) = min k (length (rowsOf ity db))
   \<and> mset (selectRecent ity k db) \<subseteq># mset (rowsOf ity db)
   \<and> (\<forall>r\<in>#mset (rowsOf ity db) - mset (selectRecent ity k db).
         \<forall>r'\<in>set (selectRecent ity k db). date r \<le> date r')"
  using selectRecent_length selectRecent_subset selectRecent_newest by blast

lemma exampleFeed_month:
  "rowsOf (js ''month'') exampleFeed = [exampleRow ''2024-01-01'' ''month'', exampleRow ''2024-02-01'' ''month'']"
  "selectRecent (js ''month'') 1 exampleFeed = [exampleRow ''2024-02-01'' ''month'']"
  by (simp_all add: selectRecent_def rowsOf_def exampleFeed_def exampleRow_def js_def)

lemma exampleFeed_selected:
  "selectRecent (js ''week'') 4 exampleFeed = [exampleRow ''2024-02-05'' ''week'']"
  "selectRecent (js ''day'') 30 exampleFeed
     = [exampleRow ''2024-02-11'' ''day'', exampleRow ''2024-02-10'' ''day'']"
  by (simp_all add: selectRecent_def rowsOf_def exampleFeed_def exampleRow_def js_def)

lemma exampleDaily_rows: "length (rowsOf (js ''day'') exampleDaily) = 35"
  by (simp add: rowsOf_def exampleDaily_def exampleDay_def filter_map comp_def)





subsection \<open>The documents\<close>

text \<open>The text of the two documents, written out.\<close>

lemma channel_title: "escapeXml (js ''Contributor Analytics'') = js ''Contributor Analytics''"
  by (rule escapeXml_plain) (auto simp add: js_def)

lemma daily_title: "js ''      <title>Daily Summary: '' = js ''      <title>'' @ js ''Daily Summary: ''"
  by (simp add: js_def)

lemma formatItem_route_text:
  \<open>formatItem_route siteUrl utc =
     (\<lambda>s. nl @ js ''    <item>'' @ nl
            @ js ''      <title>'' @ js ''Daily Summary: '' @ date s @ js ''</title>'' @ nl
            @ js ''      <link>'' @ tpl siteUrl @ js ''/summary/day/'' @ date s @ js ''</link>'' @ nl
            @ js ''      <guid isPermaLink="true">'' @ tpl siteUrl @ js ''/summary/day/'' @ date s
            @ js ''</guid>'' @ nl
            @ js ''      <pubDate>'' @ utc (date s) @ js ''</pubDate>'' @ nl
            @ js ''      <description>'' @ descriptionElement
                (case summary s of
                   None \<Rightarrow> js ''Daily contributor activity summary''
                 | Some md \<Rightarrow>
                     if md = [] then js ''Daily contributor activity summary''
                     else take 500 (stripMarkdown md))
            @ js ''</description>'' @ nl
            @ js ''    </item>'')\<close>
  by (rule ext) (simp add: formatItem_route_def Let_def descriptionElement_def daily_title)

lemma feed_documents:
  \<open>let item = (\<lambda>ity labelPrefix s.
            nl @ js ''    <item>'' @ nl
            @ js ''      <title>'' @ labelPrefix @ js '': '' @ date s @ js ''</title>'' @ nl
            @ js ''      <link>'' @ tpl siteUrl @ js ''/summary/'' @ ity @ js ''/'' @ date s @ js ''</link>'' @ nl
            @ js ''      <guid isPermaLink="true">'' @ tpl siteUrl @ js ''/summary/'' @ ity @ js ''/'' @ date s
            @ js ''</guid>'' @ nl
            @ js ''      <pubDate>'' @ utc (date s) @ js ''</pubDate>'' @ nl
            @ js ''      <description>'' @ descriptionElement (descriptionOf s labelPrefix)
            @ js ''</description>'' @ nl
            @ js ''    </item>'');
       dailyItem = (\<lambda>s.
            nl @ js ''    <item>'' @ nl
            @ js ''      <title>'' @ js ''Daily Summary: '' @ date s @ js ''</title>'' @ nl
            @ js ''      <link>'' @ tpl siteUrl @ js ''/summary/day/'' @ date s @ js ''</link>'' @ nl
            @ js ''      <guid isPermaLink="true">'' @ tpl siteUrl @ js ''/summary/day/'' @ date s
            @ js ''</guid>'' @ nl
            @ js ''      <pubDate>'' @ utc (date s) @ js ''</pubDate>'' @ nl
            @ js ''      <description>'' @ descriptionElement
                (case summary s of
                   None \<Rightarrow> js ''Daily contributor activity summary''
                 | Some md \<Rightarrow>
                     if md = [] then js ''Daily contributor activity summary''
                     else take 500 (stripMarkdown md))
            @ js ''</description>'' @ nl
            @ js ''    </item>'');
       opening =
         js ''<?xml version="1.0" encoding="UTF-8"?>'' @ nl
       @ js ''<rss version="2.0" xmlns:atom="http://www.w3.org/2005/Atom">'' @ nl
       @ js ''  <channel>'' @ nl
       @ js ''    <title>'' @ js ''Contributor Analytics'' @ js ''</title>'' @ nl
       @ js ''    <link>'' @ tpl siteUrl @ js ''</link>'' @ nl
       @ js ''    <description>Daily contributor activity summaries and analytics</description>''
       @ nl
       @ js ''    <language>en-us</language>'' @ nl
       @ js ''    <lastBuildDate>'' @ now @ js ''</lastBuildDate>'' @ nl
       @ js ''    <atom:link href="'' @ tpl siteUrl
       @ js ''/rss.xml" rel="self" type="application/rss+xml"/>'' @ nl
       @ js ''    '';
       closing = nl @ js ''  </channel>'' @ nl @ js ''</rss>''
   in
      body (GET siteUrl utc now db)
        = opening
          @ concat (map (item (js ''month'') (js ''Monthly Summary''))
                      (selectRecent (js ''month'') 1 db)
                    @ map (item (js ''week'') (js ''Weekly Summary''))
                        (selectRecent (js ''week'') 4 db)
                    @ map (item (js ''day'') (js ''Daily Summary''))
                        (selectRecent (js ''day'') 30 db))
          @ closing
      \<and> body (GET_route siteUrl utc now db)
        = opening @ concat (map dailyItem (selectRecent (js ''day'') 20 db)) @ closing\<close>
  by (simp add: Let_def GET_def GET_route_def rssDocument_def feedItems_def formatItem_def
        formatItem_route_text channel_title)

lemma exampleDaily_selected:
  "selectRecent (js ''day'') 20 exampleDaily = map exampleDay (rev [15..<35])"
  by code_simp

text \<open>
  C7. The document of the handler for month, week and day is the RSS envelope around
  the items of the rows selected for month, week and day, and the document of the daily
  handler is the same envelope around the items of the rows selected for day. The rows
  selected are at most 1, 4 and 30, and 20 in the daily handler: as many as there are
  rows of the granularity up to that bound, all of that granularity, and no row left out
  has a later date than a selected one. With 35 daily rows, 30 are selected, and 20 in
  the daily handler.
\<close>

theorem C7_feed_most_recent_rows:
  \<open>let item = (\<lambda>ity labelPrefix s.
            nl @ js ''    <item>'' @ nl
            @ js ''      <title>'' @ labelPrefix @ js '': '' @ date s @ js ''</title>'' @ nl
            @ js ''      <link>'' @ tpl siteUrl @ js ''/summary/'' @ ity @ js ''/'' @ date s @ js ''</link>'' @ nl
            @ js ''      <guid isPermaLink="true">'' @ tpl siteUrl @ js ''/summary/'' @ ity @ js ''/'' @ date s
            @ js ''</guid>'' @ nl
            @ js ''      <pubDate>'' @ utc (date s) @ js ''</pubDate>'' @ nl
            @ js ''      <description>'' @ descriptionElement (descriptionOf s labelPrefix)
            @ js ''</description>'' @ nl
            @ js ''    </item>'');
       dailyItem = (\<lambda>s.
            nl @ js ''    <item>'' @ nl
            @ js ''      <title>'' @ js ''Daily Summary: '' @ date s @ js ''</title>'' @ nl
            @ js ''      <link>'' @ tpl siteUrl @ js ''/summary/day/'' @ date s @ js ''</link>'' @ nl
            @ js ''      <guid isPermaLink="true">'' @ tpl siteUrl @ js ''/summary/day/'' @ date s
            @ js ''</guid>'' @ nl
            @ js ''      <pubDate>'' @ utc (date s) @ js ''</pubDate>'' @ nl
            @ js ''      <description>'' @ descriptionElement
                (case summary s of
                   None \<Rightarrow> js ''Daily contributor activity summary''
                 | Some md \<Rightarrow>
                     if md = [] then js ''Daily contributor activity summary''
                     else take 500 (stripMarkdown md))
            @ js ''</description>'' @ nl
            @ js ''    </item>'');
       opening =
         js ''<?xml version="1.0" encoding="UTF-8"?>'' @ nl
       @ js ''<rss version="2.0" xmlns:atom="http://www.w3.org/2005/Atom">'' @ nl
       @ js ''  <channel>'' @ nl
       @ js ''    <title>'' @ js ''Contributor Analytics'' @ js ''</title>'' @ nl
       @ js ''    <link>'' @ tpl siteUrl @ js ''</link>'' @ nl
       @ js ''    <description>Daily contributor activity summaries and analytics</description>''
       @ nl
       @ js ''    <language>en-us</language>'' @ nl
       @ js ''    <lastBuildDate>'' @ now @ js ''</lastBuildDate>'' @ nl
       @ js ''    <atom:link href="'' @ tpl siteUrl
       @ js ''/rss.xml" rel="self" type="application/rss+xml"/>'' @ nl
       @ js ''    '';
       closing = nl @ js ''  </channel>'' @ nl @ js ''</rss>''
   in
      body (GET siteUrl utc now db)
        = opening
          @ concat (map (item (js ''month'') (js ''Monthly Summary''))
                      (selectRecent (js ''month'') 1 db)
                    @ map (item (js ''week'') (js ''Weekly Summary''))
                        (selectRecent (js ''week'') 4 db)
                    @ map (item (js ''day'') (js ''Daily Summary''))
                        (selectRecent (js ''day'') 30 db))
          @ closing
      \<and> body (GET_route siteUrl utc now db)
        = opening @ concat (map dailyItem (selectRecent (js ''day'') 20 db)) @ closing
      \<and> (\<forall>(ity, k)\<in>{(js ''day'', 30), (js ''week'', 4), (js ''month'', 1), (js ''day'', 20)}.
            length (selectRecent ity k db) \<le> k
            \<and> length (selectRecent ity k db) = min k (length (rowsOf ity db))
            \<and> mset (selectRecent ity k db) \<subseteq># mset (rowsOf ity db)
            \<and> (\<forall>r\<in>#mset (rowsOf ity db) - mset (selectRecent ity k db).
                  \<forall>r'\<in>set (selectRecent ity k db). date r \<le> date r'))
      \<and> (length (rowsOf (js ''day'') db) = 35 \<longrightarrow>
            length (selectRecent (js ''day'') 30 db) = 30
            \<and> length (selectRecent (js ''day'') 20 db) = 20)\<close>
proof -
  have "\<And>ity k. length (selectRecent ity k db) \<le> k"
    by (simp add: selectRecent_length)
  then show ?thesis
    using feed_documents [of siteUrl utc now db]
      selectRecent_most_recent [of "js ''day''" 30 db]
      selectRecent_most_recent [of "js ''week''" 4 db]
      selectRecent_most_recent [of "js ''month''" 1 db]
      selectRecent_most_recent [of "js ''day''" 20 db]
    by (simp add: Let_def)
qed


text \<open>
  The daily handler on 35 daily rows: its document has the items of 20 rows, those of
  2024-01-16 to 2024-02-04, not of the 30 most recent.
\<close>

theorem C7_counterexample:
  "length (rowsOf (js ''day'') exampleDaily) = 35
   \<and> body (GET_route None id [] exampleDaily)
      = rssDocument None []
          (concat (map (formatItem_route None id) (selectRecent (js ''day'') 20 exampleDaily)))
   \<and> length (selectRecent (js ''day'') 20 exampleDaily) = 20
   \<and> selectRecent (js ''day'') 20 exampleDaily = map exampleDay (rev [15..<35])"
  using exampleDaily_rows exampleDaily_selected
  by (simp add: GET_route_def selectRecent_length del: upt.simps)

theorem C7_feed_most_recent_rows_witness:
  "length (rowsOf (js ''day'') exampleDaily) = 35
   \<and> length (selectRecent (js ''day'') 30 exampleDaily) = 30
   \<and> length (selectRecent (js ''day'') 20 exampleDaily) = 20
   \<and> exampleRow ''2024-01-01'' ''month''
        \<in># mset (rowsOf (js ''month'') exampleFeed) - mset (selectRecent (js ''month'') 1 exampleFeed)
   \<and> exampleRow ''2024-02-01'' ''month'' \<in> set (selectRecent (js ''month'') 1 exampleFeed)
   \<and> date (exampleRow ''2024-01-01'' ''month'') \<le> date (exampleRow ''2024-02-01'' ''month'')"
proof -
  note daily = C7_feed_most_recent_rows [of None id "[]" exampleDaily, unfolded Let_def]
  note feed = C7_feed_most_recent_rows [of None id "[]" exampleFeed, unfolded Let_def]
  have a: "length (selectRecent (js ''day'') 30 exampleDaily) = 30
           \<and> length (selectRecent (js ''day'') 20 exampleDaily) = 20"
    using daily [THEN conjunct2, THEN conjunct2, THEN conjunct2] exampleDaily_rows by blast
  have ne: "exampleRow ''2024-01-01'' ''month'' \<noteq> exampleRow ''2024-02-01'' ''month''"
    by (simp add: exampleRow_def js_def)
  have b: "exampleRow ''2024-01-01'' ''month''
        \<in># mset (rowsOf (js ''month'') exampleFeed) - mset (selectRecent (js ''month'') 1 exampleFeed)"
    unfolding exampleFeed_month using ne by simp
  have c: "exampleRow ''2024-02-01'' ''month'' \<in> set (selectRecent (js ''month'') 1 exampleFeed)"
    unfolding exampleFeed_month by simp
  have "\<forall>r\<in>#mset (rowsOf (js ''month'') exampleFeed) - mset (selectRecent (js ''month'') 1 exampleFeed).
          \<forall>r'\<in>set (selectRecent (js ''month'') 1 exampleFeed). date r \<le> date r'"
    using feed [THEN conjunct2, THEN conjunct2, THEN conjunct1] by blast
  with b c have "date (exampleRow ''2024-01-01'' ''month'') \<le> date (exampleRow ''2024-02-01'' ''month'')"
    by blast
  with a b c exampleDaily_rows show ?thesis by blast
qed

text \<open>
  C8. The handler cuts the stripped body to 500 characters and appends the ellipsis when
  what is left has 500 characters or more. For a body of exactly 500 characters, which
  is not cut, the description is the whole body followed by the ellipsis, in the item
  of both handlers.
\<close>

theorem C8_ellipsis_at_500_characters:
  \<open>length (stripMarkdown (replicate 500 0x61)) = 500
   \<and> formatItem (Some (js ''https://example.org'')) (\<lambda>d. js ''Mon, 01 Jan 2024 00:00:00 GMT'')
        \<lparr>date = js ''2024-01-01'', intervalType_col = js ''day'',
         summary = Some (replicate 500 0x61)\<rparr> (js ''day'') (js ''Daily Summary'')
      = nl @ js ''    <item>'' @ nl
        @ js ''      <title>Daily Summary: 2024-01-01</title>'' @ nl
        @ js ''      <link>https://example.org/summary/day/2024-01-01</link>'' @ nl
        @ js ''      <guid isPermaLink="true">https://example.org/summary/day/2024-01-01</guid>''
        @ nl
        @ js ''      <pubDate>Mon, 01 Jan 2024 00:00:00 GMT</pubDate>'' @ nl
        @ js ''      <description>'' @ replicate 500 0x61 @ js ''...'' @ js ''</description>'' @ nl
        @ js ''    </item>''
   \<and> formatItem_route (Some (js ''https://example.org''))
        (\<lambda>d. js ''Mon, 01 Jan 2024 00:00:00 GMT'')
        \<lparr>date = js ''2024-01-01'', intervalType_col = js ''day'',
         summary = Some (replicate 500 0x61)\<rparr>
      = formatItem (Some (js ''https://example.org'')) (\<lambda>d. js ''Mon, 01 Jan 2024 00:00:00 GMT'')
        \<lparr>date = js ''2024-01-01'', intervalType_col = js ''day'',
         summary = Some (replicate 500 0x61)\<rparr> (js ''day'') (js ''Daily Summary'')\<close>
proof -
  have d: "descriptionElement (descriptionOf \<lparr>date = js ''2024-01-01'', intervalType_col = js ''day'',
         summary = Some (replicate 500 0x61)\<rparr> (js ''Daily Summary''))
        = replicate 500 0x61 @ js ''...''"
    by (subst descriptionElement_summary [where md = "replicate 500 0x61"])
       (simp_all add: stripMarkdown_letters escapeXml_letters)
  show ?thesis
    unfolding formatItem_def formatItem_route_def d
    by (simp add: stripMarkdown_letters escapeXml_letters js_def)
qed






text \<open>
  C10. The document is the envelope around the items of the monthly rows, then those of
  the weekly rows, then those of the daily rows, and the rows of each group are in
  descending order of date; the daily handler has the daily rows only, in that order.
\<close>

theorem C10_feed_item_order:
  \<open>let item = (\<lambda>ity labelPrefix s.
            nl @ js ''    <item>'' @ nl
            @ js ''      <title>'' @ labelPrefix @ js '': '' @ date s @ js ''</title>'' @ nl
            @ js ''      <link>'' @ tpl siteUrl @ js ''/summary/'' @ ity @ js ''/'' @ date s @ js ''</link>'' @ nl
            @ js ''      <guid isPermaLink="true">'' @ tpl siteUrl @ js ''/summary/'' @ ity @ js ''/'' @ date s
            @ js ''</guid>'' @ nl
            @ js ''      <pubDate>'' @ utc (date s) @ js ''</pubDate>'' @ nl
            @ js ''      <description>'' @ descriptionElement (descriptionOf s labelPrefix)
            @ js ''</description>'' @ nl
            @ js ''    </item>'');
       dailyItem = (\<lambda>s.
            nl @ js ''    <item>'' @ nl
            @ js ''      <title>'' @ js ''Daily Summary: '' @ date s @ js ''</title>'' @ nl
            @ js ''      <link>'' @ tpl siteUrl @ js ''/summary/day/'' @ date s @ js ''</link>'' @ nl
            @ js ''      <guid isPermaLink="true">'' @ tpl siteUrl @ js ''/summary/day/'' @ date s
            @ js ''</guid>'' @ nl
            @ js ''      <pubDate>'' @ utc (date s) @ js ''</pubDate>'' @ nl
            @ js ''      <description>'' @ descriptionElement
                (case summary s of
                   None \<Rightarrow> js ''Daily contributor activity summary''
                 | Some md \<Rightarrow>
                     if md = [] then js ''Daily contributor activity summary''
                     else take 500 (stripMarkdown md))
            @ js ''</description>'' @ nl
            @ js ''    </item>'');
       opening =
         js ''<?xml version="1.0" encoding="UTF-8"?>'' @ nl
       @ js ''<rss version="2.0" xmlns:atom="http://www.w3.org/2005/Atom">'' @ nl
       @ js ''  <channel>'' @ nl
       @ js ''    <title>'' @ js ''Contributor Analytics'' @ js ''</title>'' @ nl
       @ js ''    <link>'' @ tpl siteUrl @ js ''</link>'' @ nl
       @ js ''    <description>Daily contributor activity summaries and analytics</description>''
       @ nl
       @ js ''    <language>en-us</language>'' @ nl
       @ js ''    <lastBuildDate>'' @ now @ js ''</lastBuildDate>'' @ nl
       @ js ''    <atom:link href="'' @ tpl siteUrl
       @ js ''/rss.xml" rel="self" type="application/rss+xml"/>'' @ nl
       @ js ''    '';
       closing = nl @ js ''  </channel>'' @ nl @ js ''</rss>''
   in
      body (GET siteUrl utc now db)
        = opening
          @ concat (map (item (js ''month'') (js ''Monthly Summary''))
                      (selectRecent (js ''month'') 1 db)
                    @ map (item (js ''week'') (js ''Weekly Summary''))
                        (selectRecent (js ''week'') 4 db)
                    @ map (item (js ''day'') (js ''Daily Summary''))
                        (selectRecent (js ''day'') 30 db))
          @ closing
      \<and> body (GET_route siteUrl utc now db)
        = opening @ concat (map dailyItem (selectRecent (js ''day'') 20 db)) @ closing
      \<and> sorted_wrt (\<lambda>a b. date b \<le> date a) (selectRecent (js ''month'') 1 db)
      \<and> sorted_wrt (\<lambda>a b. date b \<le> date a) (selectRecent (js ''week'') 4 db)
      \<and> sorted_wrt (\<lambda>a b. date b \<le> date a) (selectRecent (js ''day'') 30 db)
      \<and> sorted_wrt (\<lambda>a b. date b \<le> date a) (selectRecent (js ''day'') 20 db)\<close>
  using feed_documents [of siteUrl utc now db]
  by (simp add: Let_def selectRecent_sorted)


theorem C10_feed_item_order_witness:
  "body (GET None id [] exampleFeed)
     = rssDocument None []
         (formatItem None id (exampleRow ''2024-02-01'' ''month'') (js ''month'') (js ''Monthly Summary'')
          @ formatItem None id (exampleRow ''2024-02-05'' ''week'') (js ''week'') (js ''Weekly Summary'')
          @ formatItem None id (exampleRow ''2024-02-11'' ''day'') (js ''day'') (js ''Daily Summary'')
          @ formatItem None id (exampleRow ''2024-02-10'' ''day'') (js ''day'') (js ''Daily Summary''))
   \<and> date (exampleRow ''2024-02-10'' ''day'') \<le> date (exampleRow ''2024-02-11'' ''day'')"
proof -
  note inst = C10_feed_item_order [of None id "[]" exampleFeed, unfolded Let_def
      exampleFeed_month exampleFeed_selected]
  have "date (exampleRow ''2024-02-10'' ''day'') \<le> date (exampleRow ''2024-02-11'' ''day'')"
    using inst [THEN conjunct2, THEN conjunct2, THEN conjunct2, THEN conjunct2, THEN conjunct1]
    by simp
  moreover have "body (GET None id [] exampleFeed)
     = rssDocument None []
         (formatItem None id (exampleRow ''2024-02-01'' ''month'') (js ''month'') (js ''Monthly Summary'')
          @ formatItem None id (exampleRow ''2024-02-05'' ''week'') (js ''week'') (js ''Weekly Summary'')
          @ formatItem None id (exampleRow ''2024-02-11'' ''day'') (js ''day'') (js ''Daily Summary'')
          @ formatItem None id (exampleRow ''2024-02-10'' ''day'') (js ''day'') (js ''Daily Summary''))"
    using inst [THEN conjunct1]
    by (simp add: rssDocument_def formatItem_def channel_title)
  ultimately show ?thesis by blast
qed

end
